theory Spec2Isabelle
  imports Complex_Main "HOL-Library.Sublist"
begin

section \<open>Numbers and their rendering\<close>

text \<open>
  Hours, lags and factors are Python floats (Java doubles behind the bridge) in the
  source. A double is modelled by the rational number it holds. The quotients the code
  computes (\<^verbatim>\<open>native_hours / mpxj_hours\<close>, \<^verbatim>\<open>count/len(tasks_df)*100\<close> and the overall
  correction factor) are rounded to the nearest double as the machine rounds them, and
  the literals \<^verbatim>\<open>0.8\<close> and \<^verbatim>\<open>1.2\<close> are the doubles nearest to 4/5 and 6/5. The product
  of a raw duration by 24 is taken exact, as it is for every double of at most 48
  significant bits. NaN, infinities, overflow and subnormal numbers are outside the model.
\<close>

definition digit :: "nat \<Rightarrow> char" where
  "digit d = ''0123456789'' ! d"

text \<open>\<^verbatim>\<open>str(n)\<close> for a non-negative integer: its decimal digits, most significant first.\<close>

fun str_nat :: "nat \<Rightarrow> string" where
  "str_nat n = (if n < 10 then [digit n] else str_nat (n div 10) @ [digit (n mod 10)])"

declare str_nat.simps [simp del]

text \<open>\<^verbatim>\<open>str(i)\<close> for a Python int (also what an f-string prints for it).\<close>

definition str_int :: "int \<Rightarrow> string" where
  "str_int i = (if i < 0 then ''-'' @ str_nat (nat (- i)) else str_nat (nat i))"

text \<open>\<^verbatim>\<open>int(x)\<close> for a float: truncation towards zero.\<close>

definition py_int :: "rat \<Rightarrow> int" where
  "py_int x = (if 0 \<le> x then \<lfloor>x\<rfloor> else - \<lfloor>- x\<rfloor>)"

text \<open>Rounding to the nearest integer, ties to the even neighbour, as \<^verbatim>\<open>format\<close> rounds.\<close>

definition round_half_even :: "rat \<Rightarrow> int" where
  "round_half_even x =
     (let f = \<lfloor>x\<rfloor>; r = x - of_int f
      in if r < 1 / 2 then f
         else if 1 / 2 < r then f + 1
         else if even f then f else f + 1)"

text \<open>The number of binary digits of a natural number.\<close>

fun bits :: "nat \<Rightarrow> nat" where
  "bits n = (if n = 0 then 0 else Suc (bits (n div 2)))"

declare bits.simps [simp del]

text \<open>The binary exponent of a positive number \<open>x\<close>: the \<open>e\<close> with \<open>2\<^sup>e \<le> x < 2\<^sup>e\<^sup>+\<^sup>1\<close>.\<close>

definition exponent :: "rat \<Rightarrow> int" where
  "exponent x =
     (if 1 \<le> x then int (bits (nat \<lfloor>x\<rfloor>)) - 1
      else - int (bits (nat (\<lceil>1 / x\<rceil> - 1))))"

text \<open>
  Rounding to the nearest double: the significand is rounded to 53 binary digits, ties
  to the even neighbour.
\<close>

definition round_double :: "rat \<Rightarrow> rat" where
  "round_double x =
     (if x = 0 then 0
      else let u = 2 powi (exponent \<bar>x\<bar> - 52)
           in sgn x * of_int (round_half_even (\<bar>x\<bar> / u)) * u)"

text \<open>The division and the multiplication of doubles.\<close>

definition double_div :: "rat \<Rightarrow> rat \<Rightarrow> rat" where
  "double_div a b = round_double (a / b)"

definition double_mul :: "rat \<Rightarrow> rat \<Rightarrow> rat" where
  "double_mul a b = round_double (a * b)"

definition zero_pad :: "nat \<Rightarrow> string \<Rightarrow> string" where
  "zero_pad p s = replicate (p - length s) CHR ''0'' @ s"

text \<open>
  \<^verbatim>\<open>f"{x:.pf}"\<close>: the sign of a negative value, the integer part, and for \<open>p > 0\<close> a point
  and exactly \<open>p\<close> fraction digits of the value rounded at that digit. The rounding is
  that of the exact value the double holds, ties to the even neighbour.
\<close>

definition format_f :: "nat \<Rightarrow> rat \<Rightarrow> string" where
  "format_f p x =
     (let n = nat (round_half_even (\<bar>x\<bar> * 10 ^ p))
      in (if x < 0 then ''-'' else '''')
         @ str_nat (n div 10 ^ p)
         @ (if p = 0 then '''' else ''.'' @ zero_pad p (str_nat (n mod 10 ^ p))))"

text \<open>The number a \<^verbatim>\<open>.pf\<close> rendering of \<open>x\<close> denotes.\<close>

definition rounded_to :: "nat \<Rightarrow> rat \<Rightarrow> rat" where
  "rounded_to p x = sgn x * of_int (round_half_even (\<bar>x\<bar> * 10 ^ p)) / 10 ^ p"


section \<open>The objects of the project reader\<close>

text \<open>
  The Java objects the converter reads through the bridge, with the getters the code
  calls. A getter that may return \<^verbatim>\<open>null\<close> has an option type. \<open>toString\<close> is what
  \<^verbatim>\<open>str(duration_obj)\<close> yields; \<open>getUnits\<close> holds the printed name of the time unit.
  A lag is a duration object as well.
\<close>

record duration =
  getDuration :: rat
  getUnits :: "string option"
  toString :: string

datatype RelationType = FF | FS | SF | SS

fun str_RelationType :: "RelationType \<Rightarrow> string" where
  "str_RelationType FF = ''FF''"
| "str_RelationType FS = ''FS''"
| "str_RelationType SF = ''SF''"
| "str_RelationType SS = ''SS''"

text \<open>
  A task object. The formatter reads only the identifier of a predecessor task, so the
  identifier is the base record and the fields the converter reads extend it. The
  remaining getters (name, dates, cost, notes and so on) are copied into the output row
  without entering any decision and are left out.
\<close>

record task_ident =
  getID :: "int option"

record relation =
  getPredecessorTask :: "task_ident option"
  getType :: "RelationType option"
  getLag :: "duration option"

record task = task_ident +
  task_getDuration :: "duration option"
  getPredecessors :: "relation list option"

text \<open>One row of the reference workbook, as stored in \<^verbatim>\<open>native_data\<close>.\<close>

record native =
  native_hours :: rat
  native_name :: string


section \<open>Duration correction (\<^verbatim>\<open>read_ms_project_corrected\<close>)\<close>

text \<open>\<^verbatim>\<open>mpxj_duration_str = str(duration_obj) if duration_obj else ''\<close>\<close>

definition mpxj_duration_str :: "duration option \<Rightarrow> string" where
  "mpxj_duration_str duration_obj =
     (case duration_obj of Some d \<Rightarrow> toString d | None \<Rightarrow> '''')"

text \<open>
  The raw hours: 0 unless the duration object is present and its string contains
  \<^verbatim>\<open>eh\<close> (the value is taken as it is) or else \<^verbatim>\<open>d\<close> (the value times 24).
\<close>

definition mpxj_hours :: "duration option \<Rightarrow> rat" where
  "mpxj_hours duration_obj =
     (case duration_obj of
        None \<Rightarrow> 0
      | Some d \<Rightarrow>
          if sublist ''eh'' (mpxj_duration_str duration_obj) then getDuration d
          else if sublist ''d'' (mpxj_duration_str duration_obj) then getDuration d * 24
          else 0)"

text \<open>
  The local variables of one loop iteration after the correction block. \<open>factor\<close> is
  \<open>None\<close> when the iteration does not assign it.
\<close>

record decision =
  corrected_hours :: rat
  corrected_duration_str :: string
  duration_source :: string
  factor :: "rat option"

definition correct :: "(int \<rightharpoonup> native) \<Rightarrow> int \<Rightarrow> duration option \<Rightarrow> decision" where
  "correct native_data task_id duration_obj =
     (let s = mpxj_duration_str duration_obj;
          h = mpxj_hours duration_obj
      in case native_data task_id of
           Some n \<Rightarrow>
             if 0 < h then
               let f = double_div (native_hours n) h
               in if 20 \<le> f \<and> f \<le> 28 then
                    \<lparr>corrected_hours = native_hours n,
                     corrected_duration_str = format_f 1 (native_hours n) @ ''h'',
                     duration_source = ''Nativo (corregido)'',
                     factor = Some f\<rparr>
                  else if round_double (4 / 5) \<le> f \<and> f \<le> round_double (6 / 5) then
                    \<lparr>corrected_hours = h,
                     corrected_duration_str = s,
                     duration_source = ''MPXJ (validado)'',
                     factor = Some f\<rparr>
                  else
                    \<lparr>corrected_hours = native_hours n,
                     corrected_duration_str = format_f 1 (native_hours n) @ ''h'',
                     duration_source = ''Nativo (factor '' @ format_f 1 f @ ''x)'',
                     factor = Some f\<rparr>
             else
               \<lparr>corrected_hours = native_hours n,
                corrected_duration_str = format_f 1 (native_hours n) @ ''h'',
                duration_source = ''Nativo (MPXJ=0)'',
                factor = None\<rparr>
         | None \<Rightarrow>
             if sublist ''eh'' s \<and> h < 100 then
               \<lparr>corrected_hours = h * 24,
                corrected_duration_str = format_f 1 (h * 24) @ ''h'',
                duration_source = ''MPXJ corregido (x24)'',
                factor = None\<rparr>
             else
               \<lparr>corrected_hours = h,
                corrected_duration_str = s,
                duration_source = ''MPXJ'',
                factor = None\<rparr>)"

text \<open>
  The provenance tags of the specification, read off the \<^verbatim>\<open>Duration_Source\<close> text the
  code attaches.
\<close>

datatype ProvenanceTag =
  RawAccepted
| RawAcceptedScaled24x
| ReferenceAcceptedDayUnitFix
| RawValidatedByReference
| ReferenceAcceptedSuspectFactor
| ReferenceAcceptedRawZero

definition tag_of :: "string \<Rightarrow> ProvenanceTag option" where
  "tag_of src =
     (if src = ''MPXJ'' then Some RawAccepted
      else if src = ''MPXJ corregido (x24)'' then Some RawAcceptedScaled24x
      else if src = ''Nativo (corregido)'' then Some ReferenceAcceptedDayUnitFix
      else if src = ''MPXJ (validado)'' then Some RawValidatedByReference
      else if src = ''Nativo (MPXJ=0)'' then Some ReferenceAcceptedRawZero
      else if prefix ''Nativo (factor '' src \<and> suffix ''x)'' src
        then Some ReferenceAcceptedSuspectFactor
      else None)"


section \<open>Predecessor notation (\<^verbatim>\<open>format_predecessors\<close>)\<close>

text \<open>What an f-string prints for \<^verbatim>\<open>pred_task.getID()\<close>: the number, or \<^verbatim>\<open>None\<close>.\<close>

definition str_id :: "int option \<Rightarrow> string" where
  "str_id i = (case i of Some k \<Rightarrow> str_int k | None \<Rightarrow> ''None'')"

text \<open>The body of the loop: the text appended for one relation.\<close>

definition format_relation :: "relation \<Rightarrow> string" where
  "format_relation relation =
     (let task_id = (case getPredecessorTask relation of
                       Some pred_task \<Rightarrow> str_id (getID pred_task)
                     | None \<Rightarrow> ''Unknown'');
          rel_type = (case getType relation of
                        Some t \<Rightarrow> str_RelationType t
                      | None \<Rightarrow> ''FS'');
          lag_str = (case getLag relation of
                       None \<Rightarrow> ''''
                     | Some lag \<Rightarrow>
                         if getDuration lag \<noteq> 0 then
                           let lag_value = getDuration lag;
                               lag_units = (case getUnits lag of Some u \<Rightarrow> u | None \<Rightarrow> ''d'')
                           in if 0 < lag_value
                              then ''+'' @ str_int (py_int lag_value) @ lag_units
                              else str_int (py_int lag_value) @ lag_units
                         else '''')
      in task_id @ rel_type @ lag_str)"

text \<open>The loop, with the list \<^verbatim>\<open>formatted\<close> it appends to.\<close>

fun format_loop :: "string list \<Rightarrow> relation list \<Rightarrow> string list" where
  "format_loop formatted [] = formatted"
| "format_loop formatted (relation # rest) =
     format_loop (formatted @ [format_relation relation]) rest"

text \<open>\<^verbatim>\<open>sep.join(xs)\<close>\<close>

fun join :: "string \<Rightarrow> string list \<Rightarrow> string" where
  "join sep [] = ''''"
| "join sep [x] = x"
| "join sep (x # y # ys) = x @ sep @ join sep (y # ys)"

text \<open>A \<^verbatim>\<open>null\<close> list and an empty one are both falsy and give the empty text.\<close>

definition format_predecessors :: "relation list option \<Rightarrow> string" where
  "format_predecessors predecessors =
     (case predecessors of
        None \<Rightarrow> ''''
      | Some [] \<Rightarrow> ''''
      | Some rs \<Rightarrow> join ''; '' (format_loop [] rs))"

text \<open>
  The relation of the specification and its formatter, written from the specification's
  words: the token of a relation is its identifier (or \<^verbatim>\<open>Unknown\<close>), its type (\<^verbatim>\<open>FS\<close>
  when unspecified) and its lag token, which is empty for a zero lag and otherwise a
  \<^verbatim>\<open>+\<close> for a positive lag, the lag as an integer, and the unit.
\<close>

record spec_relation =
  predecessorTaskId :: "int option"
  relType :: "RelationType option"
  lagValue :: rat
  lagUnit :: string

definition lagToken :: "rat \<Rightarrow> string \<Rightarrow> string" where
  "lagToken v u =
     (if v = 0 then '''' else (if 0 < v then ''+'' else '''') @ str_int (py_int v) @ u)"

definition relationToken :: "spec_relation \<Rightarrow> string" where
  "relationToken r =
     (case predecessorTaskId r of Some i \<Rightarrow> str_int i | None \<Rightarrow> ''Unknown'')
     @ str_RelationType (case relType r of Some t \<Rightarrow> t | None \<Rightarrow> FS)
     @ lagToken (lagValue r) (lagUnit r)"

definition formatRelations :: "spec_relation list \<Rightarrow> string" where
  "formatRelations rs = join ''; '' (map relationToken rs)"

text \<open>
  How a relation object is read as a relation of the specification: no predecessor task
  is an absent identifier, no lag object is a zero lag, and a lag without a unit has the
  unit \<^verbatim>\<open>d\<close>.
\<close>

definition spec_of :: "relation \<Rightarrow> spec_relation" where
  "spec_of r =
     \<lparr>predecessorTaskId = (case getPredecessorTask r of Some t \<Rightarrow> getID t | None \<Rightarrow> None),
      relType = getType r,
      lagValue = (case getLag r of Some l \<Rightarrow> getDuration l | None \<Rightarrow> 0),
      lagUnit = (case getLag r of
                   Some l \<Rightarrow> (case getUnits l of Some u \<Rightarrow> u | None \<Rightarrow> ''d'')
                 | None \<Rightarrow> ''d'')\<rparr>"

text \<open>Every predecessor task that is present carries an identifier.\<close>

definition ids_present :: "relation list \<Rightarrow> bool" where
  "ids_present rs =
     list_all (\<lambda>r. case getPredecessorTask r of Some t \<Rightarrow> getID t \<noteq> None | None \<Rightarrow> True) rs"


section \<open>The output rows\<close>

text \<open>\<^verbatim>\<open>task_id = task.getID() if task.getID() else 0\<close>: a missing or zero identifier is 0.\<close>

definition task_id_of :: "'a task_scheme \<Rightarrow> int" where
  "task_id_of t = (case getID t of Some i \<Rightarrow> (if i \<noteq> 0 then i else 0) | None \<Rightarrow> 0)"

text \<open>The columns of \<^verbatim>\<open>task_data\<close> that the correction and the formatter fill.\<close>

record task_data =
  ID :: int
  Duration_Original :: string
  Duration_MPXJ_Hours :: rat
  Duration_Corrected :: string
  Duration_Corrected_Hours :: rat
  Duration_Source :: string
  Predecessors :: string

definition task_row :: "(int \<rightharpoonup> native) \<Rightarrow> task \<Rightarrow> task_data" where
  "task_row native_data t =
     (let task_id = task_id_of t;
          duration_obj = task_getDuration t;
          c = correct native_data task_id duration_obj
      in \<lparr>ID = task_id,
          Duration_Original = mpxj_duration_str duration_obj,
          Duration_MPXJ_Hours = mpxj_hours duration_obj,
          Duration_Corrected = corrected_duration_str c,
          Duration_Corrected_Hours = corrected_hours c,
          Duration_Source = duration_source c,
          Predecessors = format_predecessors (getPredecessors t)\<rparr>)"

text \<open>The loop over the tasks of the project; a \<^verbatim>\<open>None\<close> task is skipped.\<close>

fun read_ms_project_corrected :: "(int \<rightharpoonup> native) \<Rightarrow> task option list \<Rightarrow> task_data list" where
  "read_ms_project_corrected native_data [] = []"
| "read_ms_project_corrected native_data (None # tasks) =
     read_ms_project_corrected native_data tasks"
| "read_ms_project_corrected native_data (Some t # tasks) =
     task_row native_data t # read_ms_project_corrected native_data tasks"


section \<open>The summary sheet (\<^verbatim>\<open>export_corrected_excel\<close>)\<close>

text \<open>
  \<^verbatim>\<open>Series.value_counts()\<close>: every distinct value with the number of rows holding it.
  The library orders the result by decreasing count; the order is not modelled.
\<close>

definition value_counts :: "string list \<Rightarrow> (string \<times> nat) list" where
  "value_counts xs = map (\<lambda>v. (v, count_list xs v)) (remdups xs)"

text \<open>\<^verbatim>\<open>count/len(tasks_df)*100\<close>\<close>

definition percentage :: "nat \<Rightarrow> nat \<Rightarrow> rat" where
  "percentage count n = double_mul (double_div (of_nat count) (of_nat n)) 100"

datatype cell = Num nat | Text string

record summary_row =
  Metric :: string
  Count :: cell
  Percentage :: string

text \<open>
  The statistics and the totals the summary is built from. \<^verbatim>\<open>Series.sum()\<close> adds a
  column in double precision, in an order of the library's own: the function is the
  parameter \<open>series_sum\<close> of the summary.
\<close>

definition correction_stats :: "task_data list \<Rightarrow> (string \<times> nat) list" where
  "correction_stats tasks_df = value_counts (map Duration_Source tasks_df)"

definition total_original_hours :: "(rat list \<Rightarrow> rat) \<Rightarrow> task_data list \<Rightarrow> rat" where
  "total_original_hours series_sum tasks_df = series_sum (map Duration_MPXJ_Hours tasks_df)"

definition total_corrected_hours :: "(rat list \<Rightarrow> rat) \<Rightarrow> task_data list \<Rightarrow> rat" where
  "total_corrected_hours series_sum tasks_df = series_sum (map Duration_Corrected_Hours tasks_df)"

text \<open>The row appended for one entry of the statistics.\<close>

definition stats_row :: "nat \<Rightarrow> string \<times> nat \<Rightarrow> summary_row" where
  "stats_row n = (\<lambda>(source, count).
     \<lparr>Metric = ''Tasks from '' @ source,
      Count = Num count,
      Percentage = format_f 1 (percentage count n) @ ''%''\<rparr>)"

text \<open>The four rows that follow: the number of tasks, the two totals, and the factor.\<close>

definition general_rows :: "(rat list \<Rightarrow> rat) \<Rightarrow> task_data list \<Rightarrow> summary_row list" where
  "general_rows series_sum tasks_df =
     [\<lparr>Metric = ''Total tasks'', Count = Num (length tasks_df), Percentage = ''100%''\<rparr>,
      \<lparr>Metric = ''Original MPXJ hours'',
       Count = Text (format_f 0 (total_original_hours series_sum tasks_df)), Percentage = []\<rparr>,
      \<lparr>Metric = ''Corrected hours'',
       Count = Text (format_f 0 (total_corrected_hours series_sum tasks_df)), Percentage = []\<rparr>,
      \<lparr>Metric = ''Correction factor'',
       Count = Text (if 0 < total_original_hours series_sum tasks_df
                     then format_f 1 (double_div (total_corrected_hours series_sum tasks_df)
                                        (total_original_hours series_sum tasks_df)) @ ''x''
                     else ''N/A''),
       Percentage = []\<rparr>]"

definition summary_data :: "(rat list \<Rightarrow> rat) \<Rightarrow> task_data list \<Rightarrow> summary_row list" where
  "summary_data series_sum tasks_df =
     map (stats_row (length tasks_df)) (correction_stats tasks_df) @ general_rows series_sum tasks_df"


section \<open>The rows of the timeline (\<^verbatim>\<open>prepare_gantt_data\<close>)\<close>

text \<open>
  A row of the sheet the visualizer reads, with its two date cells; an empty cell is
  \<open>None\<close>. The other columns are the rest of the record.
\<close>

record gantt_row =
  Start :: "string option"
  Finish :: "string option"

text \<open>\<^verbatim>\<open>df[df['Start'].notna() & df['Finish'].notna()]\<close>; no later step drops a row.\<close>

definition rows_with_dates :: "'a gantt_row_scheme list \<Rightarrow> 'a gantt_row_scheme list" where
  "rows_with_dates df = filter (\<lambda>row. Start row \<noteq> None \<and> Finish row \<noteq> None) df"


section \<open>Example inputs\<close>

text \<open>
  A reference table with one entry, for task 1, and a task 1 whose duration object
  has the given value and prints as the given string.
\<close>

definition example_reference :: "rat \<Rightarrow> int \<rightharpoonup> native" where
  "example_reference h = [1 \<mapsto> \<lparr>native_hours = h, native_name = ''Task''\<rparr>]"

definition example_task :: "rat \<Rightarrow> string \<Rightarrow> task" where
  "example_task v s =
     \<lparr>getID = Some 1,
      task_getDuration = Some \<lparr>getDuration = v, getUnits = None, toString = s\<rparr>,
      getPredecessors = None\<rparr>"

text \<open>
  A relation to the given predecessor (task 5, or none) of the given type, with a lag of
  the given value in days.
\<close>

definition example_relation :: "bool \<Rightarrow> RelationType option \<Rightarrow> rat \<Rightarrow> relation" where
  "example_relation has_task ty lag =
     \<lparr>getPredecessorTask = (if has_task then Some \<lparr>getID = Some 5\<rparr> else None),
      getType = ty,
      getLag = Some \<lparr>getDuration = lag, getUnits = Some ''d'', toString = ''''\<rparr>\<rparr>"

text \<open>
  A relation whose predecessor task is present and has no identifier
  (\<^verbatim>\<open>getID()\<close> is \<^verbatim>\<open>null\<close>), of type \<^verbatim>\<open>FS\<close>, without a lag.
\<close>

definition example_null_id :: relation where
  "example_null_id =
     \<lparr>getPredecessorTask = Some \<lparr>getID = None\<rparr>, getType = Some FS, getLag = None\<rparr>"

text \<open>
  Three rows of the corrected sheet, read with a reference of 69 hours for task 1: task 1
  of 20 elapsed hours, and two tasks 2 of 5 days; the project's list holds an empty slot
  as well.
\<close>

definition example_rows :: "task_data list" where
  "example_rows =
     read_ms_project_corrected (example_reference 69)
       [Some (example_task 20 ''20.0eh''), None,
        Some ((example_task 5 ''5.0d'')\<lparr>getID := Some 2\<rparr>),
        Some ((example_task 5 ''5.0d'')\<lparr>getID := Some 2\<rparr>)]"

text \<open>A row of the visualizer's sheet with a start date and no finish date.\<close>

definition example_start_only :: gantt_row where
  "example_start_only = \<lparr>Start = Some ''2024-01-01 08:00:00'', Finish = None\<rparr>"


section \<open>Properties of the rendering\<close>

lemma round_half_even_near: "\<bar>of_int (round_half_even y) - y\<bar> \<le> 1 / 2"
proof -
  have "of_int \<lfloor>y\<rfloor> \<le> y" "y < of_int \<lfloor>y\<rfloor> + 1"
    by linarith+
  then show ?thesis
    by (auto simp: round_half_even_def Let_def abs_le_iff)
qed


text \<open>The rounded value is within half a unit of the last digit shown.\<close>

lemma rounded_to_near: "\<bar>rounded_to p x - x\<bar> \<le> 1 / (2 * 10 ^ p)"
proof -
  define y where "y = \<bar>x\<bar> * 10 ^ p"
  have "rounded_to p x - x = sgn x * (of_int (round_half_even y) - y) / 10 ^ p"
    unfolding rounded_to_def y_def
    by (simp add: field_simps sgn_if abs_if)
  then have "\<bar>rounded_to p x - x\<bar> = \<bar>sgn x\<bar> * \<bar>of_int (round_half_even y) - y\<bar> / 10 ^ p"
    by (simp add: abs_mult)
  also have "\<dots> \<le> 1 * (1 / 2) / 10 ^ p"
    by (intro divide_right_mono mult_mono round_half_even_near) (auto simp: sgn_if)
  finally show ?thesis by simp
qed




section \<open>Properties of the rounding to doubles\<close>

lemma bits_bounds: "0 < n \<Longrightarrow> 2 ^ (bits n - 1) \<le> n \<and> n < 2 ^ bits n"
proof (induction n rule: bits.induct)
  case (1 n)
  show ?case
  proof (cases "n div 2 = 0")
    case True
    with "1.prems" have "n = 1"
      by (simp add: div_eq_0_iff)
    then show ?thesis
      by (simp add: bits.simps)
  next
    case False
    then have pos: "0 < n div 2" by simp
    from "1.IH" [OF _ pos] "1.prems"
    have ih: "2 ^ (bits (n div 2) - 1) \<le> n div 2" "n div 2 < 2 ^ bits (n div 2)"
      by auto
    have b: "bits n = Suc (bits (n div 2))"
      using "1.prems" by (subst bits.simps) simp
    have bp: "0 < bits (n div 2)"
      using pos by (subst bits.simps) simp
    then have "(2::nat) ^ bits (n div 2) = 2 * 2 ^ (bits (n div 2) - 1)"
      by (cases "bits (n div 2)") simp_all
    with ih show ?thesis
      unfolding b by simp linarith
  qed
qed

lemma round_half_even_of_int: "round_half_even (of_int m) = m"
  by (simp add: round_half_even_def)

lemma round_half_even_mono: "a \<le> b \<Longrightarrow> round_half_even a \<le> round_half_even b"
proof -
  assume ab: "a \<le> b"
  have fa: "of_int \<lfloor>a\<rfloor> \<le> a" "a < of_int \<lfloor>a\<rfloor> + 1" and fb: "of_int \<lfloor>b\<rfloor> \<le> b" "b < of_int \<lfloor>b\<rfloor> + 1"
    by linarith+
  from ab have "\<lfloor>a\<rfloor> \<le> \<lfloor>b\<rfloor>" by (rule floor_mono)
  then consider "\<lfloor>a\<rfloor> = \<lfloor>b\<rfloor>" | "\<lfloor>a\<rfloor> + 1 \<le> \<lfloor>b\<rfloor>" by linarith
  then show ?thesis
  proof cases
    case 1
    with ab show ?thesis
      by (auto simp: round_half_even_def Let_def)
  next
    case 2
    have "round_half_even a \<le> \<lfloor>a\<rfloor> + 1"
      by (auto simp: round_half_even_def Let_def)
    also note 2
    also have "\<lfloor>b\<rfloor> \<le> round_half_even b"
      by (auto simp: round_half_even_def Let_def)
    finally show ?thesis .
  qed
qed

lemma exponent_bounds:
  assumes "0 < x"
  shows "2 powi exponent x \<le> x \<and> x < 2 powi (exponent x + 1)"
proof (cases "1 \<le> x")
  case True
  define m where "m = nat \<lfloor>x\<rfloor>"
  from True have fl: "1 \<le> \<lfloor>x\<rfloor>" by simp
  then have m: "0 < m" "of_nat m = (of_int \<lfloor>x\<rfloor> :: rat)"
    by (simp_all add: m_def)
  from bits_bounds [OF m(1)] have b: "2 ^ (bits m - 1) \<le> m" "m < 2 ^ bits m"
    by simp_all
  have bp: "0 < bits m"
    using m(1) by (subst bits.simps) simp
  have e: "exponent x = int (bits m - 1)" "exponent x + 1 = int (bits m)"
    using True bp by (simp_all add: exponent_def m_def)
  have "(2::rat) ^ (bits m - 1) \<le> of_nat m"
    using b(1) by (metis of_nat_le_iff of_nat_numeral of_nat_power)
  also have "\<dots> \<le> x"
    unfolding m(2) by simp
  finally have lo: "(2::rat) ^ (bits m - 1) \<le> x" .
  have "Suc m \<le> 2 ^ bits m"
    using b(2) by simp
  then have "(of_nat (Suc m) :: rat) \<le> 2 ^ bits m"
    by (metis of_nat_le_iff of_nat_numeral of_nat_power)
  moreover have "x < of_nat (Suc m)"
    using m(2) by simp linarith
  ultimately have hi: "x < (2::rat) ^ bits m"
    by linarith
  have p: "(2::rat) powi exponent x = 2 ^ (bits m - 1)"
    "(2::rat) powi (exponent x + 1) = 2 ^ bits m"
    by (simp only: e(1) power_int_of_nat, simp only: e(2) power_int_of_nat)
  show ?thesis
    unfolding p using lo hi by simp
next
  case False
  define y where "y = 1 / x"
  define m where "m = nat (\<lceil>y\<rceil> - 1)"
  from False assms have y1: "1 < y"
    by (simp add: y_def)
  then have c: "2 \<le> \<lceil>y\<rceil>"
    by (simp add: less_ceiling_iff)
  then have m: "0 < m" "(of_nat m :: rat) = of_int \<lceil>y\<rceil> - 1"
    by (simp_all add: m_def)
  from bits_bounds [OF m(1)] have b: "2 ^ (bits m - 1) \<le> m" "m < 2 ^ bits m"
    by simp_all
  have bp: "0 < bits m"
    using m(1) by (subst bits.simps) simp
  have e: "exponent x = - int (bits m)"
    using False by (simp add: exponent_def m_def y_def)
  have "(2::rat) ^ (bits m - 1) \<le> of_nat m"
    using b(1) by (metis of_nat_le_iff of_nat_numeral of_nat_power)
  also have "\<dots> < y"
    unfolding m(2) by linarith
  finally have ylo: "(2::rat) ^ (bits m - 1) < y" .
  have "Suc m \<le> 2 ^ bits m"
    using b(2) by simp
  then have "(of_nat (Suc m) :: rat) \<le> 2 ^ bits m"
    by (metis of_nat_le_iff of_nat_numeral of_nat_power)
  moreover have "y \<le> of_nat (Suc m)"
    using m(2) by simp
  ultimately have yhi: "y \<le> (2::rat) ^ bits m"
    by linarith
  have x: "x = 1 / y"
    by (simp add: y_def)
  have lo: "1 / (2::rat) ^ bits m \<le> x"
    unfolding x using yhi y1 by (simp add: frac_le)
  have hi: "x < 1 / (2::rat) ^ (bits m - 1)"
    unfolding x using ylo by (simp add: frac_less2)
  have p1: "(2::rat) powi exponent x = 1 / 2 ^ bits m"
    by (simp add: e power_int_minus_divide)
  have "exponent x + 1 = - int (bits m - 1)"
    using bp by (simp add: e)
  then have p2: "(2::rat) powi (exponent x + 1) = 1 / 2 ^ (bits m - 1)"
    by (simp only: power_int_minus_divide power_int_of_nat)
  show ?thesis
    unfolding p1 p2 using lo hi by simp
qed

lemma exponent_mono:
  assumes "0 < x" "x \<le> y"
  shows "exponent x \<le> exponent y"
proof (rule ccontr)
  assume "\<not> exponent x \<le> exponent y"
  then have "exponent y + 1 \<le> exponent x"
    by simp
  then have "(2::rat) powi (exponent y + 1) \<le> 2 powi exponent x"
    by (intro power_int_increasing) simp_all
  also have "\<dots> \<le> x"
    using exponent_bounds [OF assms(1)] by simp
  also note assms(2)
  also have "y < 2 powi (exponent y + 1)"
    using exponent_bounds [of y] assms by simp
  finally show False
    by simp
qed

lemma ulp_split:
  "(2::rat) powi e = 2 ^ 52 * 2 powi (e - 52)"
  "(2::rat) powi (e + 1) = 2 ^ 53 * 2 powi (e - 52)"
proof -
  have "(2::rat) powi e = 2 powi (52 + (e - 52))"
    by simp
  also have "\<dots> = 2 powi 52 * 2 powi (e - 52)"
    by (rule power_int_add) simp
  finally show "(2::rat) powi e = 2 ^ 52 * 2 powi (e - 52)"
    by simp
  have "e + 1 = 53 + (e - 52)"
    by simp
  then have "(2::rat) powi (e + 1) = 2 powi (53 + (e - 52))"
    by (simp only:)
  also have "\<dots> = 2 powi 53 * 2 powi (e - 52)"
    by (rule power_int_add) simp
  finally show "(2::rat) powi (e + 1) = 2 ^ 53 * 2 powi (e - 52)"
    by simp
qed

lemma significand_bounds:
  assumes "0 < x"
  shows "2 ^ 52 \<le> round_half_even (x / 2 powi (exponent x - 52))
    \<and> round_half_even (x / 2 powi (exponent x - 52)) \<le> 2 ^ 53"
proof -
  let ?u = "(2::rat) powi (exponent x - 52)"
  have u: "0 < ?u" by simp
  from exponent_bounds [OF assms] have "2 ^ 52 * ?u \<le> x" "x < 2 ^ 53 * ?u"
    by (simp_all only: ulp_split [symmetric])
  with u have "2 ^ 52 \<le> x / ?u" "x / ?u \<le> 2 ^ 53"
    by (simp_all add: pos_le_divide_eq pos_divide_le_eq)
  then have "round_half_even (of_int (2 ^ 52)) \<le> round_half_even (x / ?u)"
    "round_half_even (x / ?u) \<le> round_half_even (of_int (2 ^ 53))"
    by (auto intro!: round_half_even_mono)
  then show ?thesis
    by (simp only: round_half_even_of_int)
qed

lemma round_double_pos:
  "0 < x \<Longrightarrow> round_double x
     = of_int (round_half_even (x / 2 powi (exponent x - 52))) * 2 powi (exponent x - 52)"
  by (simp add: round_double_def Let_def)

lemma round_double_pos_bounds:
  assumes "0 < x"
  shows "2 powi exponent x \<le> round_double x \<and> round_double x \<le> 2 powi (exponent x + 1)"
proof -
  let ?u = "(2::rat) powi (exponent x - 52)"
  let ?n = "round_half_even (x / ?u)"
  have u: "0 < ?u" by simp
  from significand_bounds [OF assms] have "(2::rat) ^ 52 \<le> of_int ?n" "(of_int ?n :: rat) \<le> 2 ^ 53"
    by (metis of_int_le_iff of_int_numeral of_int_power)+
  with u have "2 ^ 52 * ?u \<le> of_int ?n * ?u" "of_int ?n * ?u \<le> 2 ^ 53 * ?u"
    by (simp_all add: mult_right_mono)
  then show ?thesis
    by (simp only: round_double_pos [OF assms] ulp_split [symmetric])
qed

lemma round_double_pos_mono:
  assumes "0 < x" "x \<le> y"
  shows "round_double x \<le> round_double y"
proof -
  from assms have y: "0 < y" by simp
  from exponent_mono [OF assms] consider "exponent x = exponent y" | "exponent x + 1 \<le> exponent y"
    by linarith
  then show ?thesis
  proof cases
    case 1
    let ?u = "(2::rat) powi (exponent y - 52)"
    have u: "0 < ?u" by simp
    from assms(2) u have "x / ?u \<le> y / ?u"
      by (simp add: divide_right_mono)
    then have "round_half_even (x / ?u) \<le> round_half_even (y / ?u)"
      by (rule round_half_even_mono)
    then have "(of_int (round_half_even (x / ?u)) :: rat) * ?u \<le> of_int (round_half_even (y / ?u)) * ?u"
      using u by (simp add: mult_right_mono)
    then show ?thesis
      by (simp only: round_double_pos [OF assms(1)] round_double_pos [OF y] 1)
  next
    case 2
    have "round_double x \<le> 2 powi (exponent x + 1)"
      using round_double_pos_bounds [OF assms(1)] by simp
    also have "\<dots> \<le> 2 powi exponent y"
      using 2 by (intro power_int_increasing) simp_all
    also have "\<dots> \<le> round_double y"
      using round_double_pos_bounds [OF y] by simp
    finally show ?thesis .
  qed
qed

lemma round_double_minus: "round_double (- x) = - round_double x"
  by (simp add: round_double_def Let_def sgn_minus)

lemma round_double_pos_pos: "0 < x \<Longrightarrow> 0 < round_double x"
proof -
  assume x: "0 < x"
  have "(0::rat) < 2 powi exponent x" by simp
  also have "\<dots> \<le> round_double x"
    using round_double_pos_bounds [OF x] by simp
  finally show ?thesis .
qed

lemma round_double_zero: "round_double 0 = 0"
  by (simp add: round_double_def)

lemma round_double_mono:
  assumes "x \<le> y"
  shows "round_double x \<le> round_double y"
proof -
  consider "0 < x" | "x = 0" "0 < y" | "x = 0" "y = 0" | "x < 0" "0 < y" | "x < 0" "y = 0" | "y < 0"
    using assms by linarith
  then show ?thesis
  proof cases
    case 1
    then show ?thesis using assms by (rule round_double_pos_mono)
  next
    case 2
    then show ?thesis using round_double_pos_pos [of y] by (simp add: round_double_zero)
  next
    case 3
    then show ?thesis by simp
  next
    case 4
    then have "0 < - x" by simp
    from round_double_pos_pos [OF this] round_double_pos_pos [OF 4(2)]
    show ?thesis by (simp add: round_double_minus)
  next
    case 5
    then have "0 < - x" by simp
    from round_double_pos_pos [OF this] 5
    show ?thesis by (simp add: round_double_minus round_double_zero)
  next
    case 6
    with assms have "0 < - y" "- y \<le> - x" by simp_all
    from round_double_pos_mono [OF this]
    show ?thesis by (simp add: round_double_minus)
  qed
qed

lemma round_double_pos_error:
  assumes "0 < x"
  shows "\<bar>round_double x - x\<bar> \<le> x / 2 ^ 53"
proof -
  let ?u = "(2::rat) powi (exponent x - 52)"
  let ?n = "round_half_even (x / ?u)"
  have u: "0 < ?u" by simp
  have "round_double x - x = (of_int ?n - x / ?u) * ?u"
    using u by (simp add: round_double_pos [OF assms] left_diff_distrib)
  then have "\<bar>round_double x - x\<bar> = \<bar>of_int ?n - x / ?u\<bar> * ?u"
    using u by (simp add: abs_mult)
  also have "\<dots> \<le> 1 / 2 * ?u"
    using u by (intro mult_right_mono round_half_even_near) simp
  also have "\<dots> = 2 powi exponent x / 2 ^ 53"
    by (simp add: ulp_split(1) [of "exponent x"])
  also have "\<dots> \<le> x / 2 ^ 53"
    using exponent_bounds [OF assms] by (simp add: divide_right_mono)
  finally show ?thesis .
qed

lemma round_double_error: "\<bar>round_double x - x\<bar> \<le> \<bar>x\<bar> / 2 ^ 53"
proof -
  consider "0 < x" | "x = 0" | "0 < - x" by linarith
  then show ?thesis
  proof cases
    case 1
    then show ?thesis using round_double_pos_error [of x] by simp
  next
    case 2
    then show ?thesis by (simp add: round_double_zero)
  next
    case 3
    have "\<bar>round_double (- x) - (- x)\<bar> = \<bar>round_double x - x\<bar>"
      unfolding round_double_minus by (simp add: abs_minus_commute)
    moreover have "\<bar>x\<bar> = - x"
      using 3 by simp
    ultimately show ?thesis
      using round_double_pos_error [OF 3] by simp
  qed
qed


section \<open>Properties of the duration correction\<close>

lemma row_fields:
  "ID (task_row nd t) = task_id_of t"
  "Duration_Original (task_row nd t) = mpxj_duration_str (task_getDuration t)"
  "Duration_MPXJ_Hours (task_row nd t) = mpxj_hours (task_getDuration t)"
  "Duration_Corrected (task_row nd t)
     = corrected_duration_str (correct nd (task_id_of t) (task_getDuration t))"
  "Duration_Corrected_Hours (task_row nd t)
     = corrected_hours (correct nd (task_id_of t) (task_getDuration t))"
  "Duration_Source (task_row nd t)
     = duration_source (correct nd (task_id_of t) (task_getDuration t))"
  by (simp_all add: task_row_def Let_def)


text \<open>Evaluation of the rendering and of the example rows.\<close>

lemmas format_eval = format_f_def round_half_even_def str_nat.simps digit_def zero_pad_def

lemma example_task_fields:
  "task_getDuration (example_task v s)
     = Some \<lparr>getDuration = v, getUnits = None, toString = s\<rparr>"
  "task_id_of (example_task v s) = 1"
  by (simp_all add: example_task_def task_id_of_def)

lemma example_row:
  "Duration_MPXJ_Hours (task_row nd (example_task v s))
     = (if sublist ''eh'' s then v else if sublist ''d'' s then v * 24 else 0)"
  "Duration_Original (task_row nd (example_task v s)) = s"
  by (simp_all add: row_fields example_task_fields mpxj_hours_def mpxj_duration_str_def)

text \<open>Evaluation of the rounding to doubles on numerals.\<close>

lemma floor_numeral_div: "\<lfloor>(numeral a :: rat) / numeral b\<rfloor> = numeral a div numeral b"
  using floor_divide_of_int_eq [of "numeral a" "numeral b", where ?'a = rat] by simp

lemma ceiling_numeral_div:
  "\<lceil>(numeral a :: rat) / numeral b\<rceil> = - (- numeral a div numeral b)"
  using floor_divide_of_int_eq [of "- numeral a" "numeral b", where ?'a = rat]
  by (simp add: ceiling_def)

lemmas double_eval =
  double_div_def double_mul_def round_double_def exponent_def bits.simps round_half_even_def
  Let_def floor_numeral_div ceiling_numeral_div

text \<open>
  The bounds of the two bands as doubles: 20 and 28 are doubles, \<^verbatim>\<open>0.8\<close> and \<^verbatim>\<open>1.2\<close> are
  the doubles next to 4/5 and 6/5. A quotient whose exact value lies in a band is in the
  band after rounding as well.
\<close>

lemma band_bounds:
  "round_double 20 = 20" "round_double 28 = 28"
  "round_double (4 / 5) = 3602879701896397 / 4503599627370496"
  "round_double (6 / 5) = 5404319552844595 / 4503599627370496"
  by (simp_all add: double_eval)

lemma double_div_day_band:
  assumes "20 \<le> a / b" "a / b \<le> 28"
  shows "20 \<le> double_div a b \<and> double_div a b \<le> 28"
  using round_double_mono [OF assms(1)] round_double_mono [OF assms(2)]
  by (simp add: double_div_def band_bounds)


text \<open>The three branches of the correction under a reference entry and positive raw hours.\<close>

lemma correct_day:
  assumes "native_data task_id = Some n" "0 < mpxj_hours d"
    and "20 \<le> double_div (native_hours n) (mpxj_hours d)
         \<and> double_div (native_hours n) (mpxj_hours d) \<le> 28"
  shows "correct native_data task_id d =
     \<lparr>corrected_hours = native_hours n,
      corrected_duration_str = format_f 1 (native_hours n) @ ''h'',
      duration_source = ''Nativo (corregido)'',
      factor = Some (double_div (native_hours n) (mpxj_hours d))\<rparr>"
  by (simp only: correct_def Let_def assms option.case if_True simp_thms)


lemma correct_other:
  assumes "native_data task_id = Some n" "0 < mpxj_hours d"
    and "\<not> (20 \<le> double_div (native_hours n) (mpxj_hours d)
         \<and> double_div (native_hours n) (mpxj_hours d) \<le> 28)"
    and "\<not> (round_double (4 / 5) \<le> double_div (native_hours n) (mpxj_hours d)
         \<and> double_div (native_hours n) (mpxj_hours d) \<le> round_double (6 / 5))"
  shows "correct native_data task_id d =
     \<lparr>corrected_hours = native_hours n,
      corrected_duration_str = format_f 1 (native_hours n) @ ''h'',
      duration_source =
        ''Nativo (factor '' @ format_f 1 (double_div (native_hours n) (mpxj_hours d)) @ ''x)'',
      factor = Some (double_div (native_hours n) (mpxj_hours d))\<rparr>"
  by (simp only: correct_def Let_def assms option.case if_True if_False simp_thms)


text \<open>
  C1. With a reference entry for the task, positive raw hours and a factor (reference
  hours over raw hours) between 20 and 28, the corrected hours are the reference hours,
  the source text is the one of the tag \<open>ReferenceAcceptedDayUnitFix\<close>, and the corrected
  duration text is the reference hours with one decimal followed by \<^verbatim>\<open>h\<close>.
\<close>

theorem day_unit_fix:
  assumes "native_data (task_id_of t) = Some n"
    and "0 < Duration_MPXJ_Hours (task_row native_data t)"
    and "20 \<le> native_hours n / Duration_MPXJ_Hours (task_row native_data t)"
    and "native_hours n / Duration_MPXJ_Hours (task_row native_data t) \<le> 28"
  shows "Duration_Corrected_Hours (task_row native_data t) = native_hours n
    \<and> Duration_Source (task_row native_data t) = ''Nativo (corregido)''
    \<and> tag_of (Duration_Source (task_row native_data t)) = Some ReferenceAcceptedDayUnitFix
    \<and> Duration_Corrected (task_row native_data t) = format_f 1 (native_hours n) @ ''h''"
proof -
  from assms(3,4)
  have "20 \<le> double_div (native_hours n) (mpxj_hours (task_getDuration t))
      \<and> double_div (native_hours n) (mpxj_hours (task_getDuration t)) \<le> 28"
    unfolding row_fields by (rule double_div_day_band)
  with assms(1,2) show ?thesis
    by (simp add: row_fields correct_day tag_of_def)
qed

text \<open>Raw 10 (elapsed hours) against a reference of 240: factor 24.\<close>

theorem day_unit_fix_witness:
  "Duration_MPXJ_Hours (task_row (example_reference 240) (example_task 10 ''10.0eh'')) = 10
   \<and> Duration_Corrected_Hours (task_row (example_reference 240) (example_task 10 ''10.0eh'')) = 240
   \<and> tag_of (Duration_Source (task_row (example_reference 240) (example_task 10 ''10.0eh'')))
       = Some ReferenceAcceptedDayUnitFix
   \<and> Duration_Corrected (task_row (example_reference 240) (example_task 10 ''10.0eh''))
       = ''240.0h''"
proof -
  let ?n = "\<lparr>native_hours = 240, native_name = ''Task''\<rparr>"
  have s: "sublist ''eh'' ''10.0eh''"
    by code_simp
  have raw: "Duration_MPXJ_Hours (task_row (example_reference 240) (example_task 10 ''10.0eh'')) = 10"
    by (simp add: example_row s)
  have ref: "example_reference 240 (task_id_of (example_task 10 ''10.0eh'')) = Some ?n"
    by (simp add: example_task_fields example_reference_def)
  have fmt: "format_f 1 240 = ''240.0''"
    by (simp add: format_eval)
  from day_unit_fix [of "example_reference 240" "example_task 10 ''10.0eh''" ?n, OF ref]
  show ?thesis
    by (simp add: raw fmt tag_of_def del: One_nat_def)
qed





text \<open>
  C4. With a reference entry and raw hours equal to 0, the corrected hours are the
  reference hours, whatever they are, and the source text is the one of the tag
  \<open>ReferenceAcceptedRawZero\<close>.
\<close>

theorem raw_zero:
  assumes "native_data (task_id_of t) = Some n"
    and "Duration_MPXJ_Hours (task_row native_data t) = 0"
  shows "Duration_Corrected_Hours (task_row native_data t) = native_hours n
    \<and> Duration_Source (task_row native_data t) = ''Nativo (MPXJ=0)''
    \<and> tag_of (Duration_Source (task_row native_data t)) = Some ReferenceAcceptedRawZero
    \<and> Duration_Corrected (task_row native_data t) = format_f 1 (native_hours n) @ ''h''"
  using assms by (simp add: row_fields correct_def Let_def tag_of_def)

text \<open>A duration object of value 0 printed as elapsed hours, against a reference of 12.\<close>

theorem raw_zero_witness:
  "Duration_MPXJ_Hours (task_row (example_reference 12) (example_task 0 ''0.0eh'')) = 0
   \<and> Duration_Corrected_Hours (task_row (example_reference 12) (example_task 0 ''0.0eh'')) = 12
   \<and> tag_of (Duration_Source (task_row (example_reference 12) (example_task 0 ''0.0eh'')))
       = Some ReferenceAcceptedRawZero"
proof -
  let ?n = "\<lparr>native_hours = 12, native_name = ''Task''\<rparr>"
  have raw: "Duration_MPXJ_Hours (task_row (example_reference 12) (example_task 0 ''0.0eh'')) = 0"
    by (simp add: example_row)
  have ref: "example_reference 12 (task_id_of (example_task 0 ''0.0eh'')) = Some ?n"
    by (simp add: example_task_fields example_reference_def)
  from raw_zero [of "example_reference 12" "example_task 0 ''0.0eh''" ?n, OF ref raw]
  show ?thesis
    by (simp add: raw tag_of_def)
qed



text \<open>
  C10. When the duration text contains neither \<^verbatim>\<open>eh\<close> nor \<^verbatim>\<open>d\<close>, the raw hours are 0
  whatever value the duration object holds. With a reference entry the row then takes
  the reference hours under the source text of the tag \<open>ReferenceAcceptedRawZero\<close>;
  without one it passes through with corrected hours 0 and the original duration text.
\<close>

theorem other_units_raw_zero:
  assumes "\<not> sublist ''eh'' (Duration_Original (task_row native_data t))"
    and "\<not> sublist ''d'' (Duration_Original (task_row native_data t))"
  shows "Duration_MPXJ_Hours (task_row native_data t) = 0
    \<and> (case native_data (task_id_of t) of
          Some n \<Rightarrow>
            Duration_Corrected_Hours (task_row native_data t) = native_hours n
            \<and> tag_of (Duration_Source (task_row native_data t)) = Some ReferenceAcceptedRawZero
        | None \<Rightarrow>
            Duration_Corrected_Hours (task_row native_data t) = 0
            \<and> tag_of (Duration_Source (task_row native_data t)) = Some RawAccepted
            \<and> Duration_Corrected (task_row native_data t)
                = Duration_Original (task_row native_data t))"
proof -
  have raw: "mpxj_hours (task_getDuration t) = 0"
    using assms by (cases "task_getDuration t") (simp_all add: row_fields mpxj_hours_def)
  show ?thesis
    using assms(1) raw
    by (simp add: row_fields correct_def Let_def tag_of_def split: option.splits)
qed

text \<open>
  A duration of 40 working hours, printed \<^verbatim>\<open>40.0h\<close>, against a reference of 35, and a
  duration of 3 weeks without a reference.
\<close>

theorem other_units_raw_zero_witness:
  "Duration_MPXJ_Hours (task_row (example_reference 35) (example_task 40 ''40.0h'')) = 0
   \<and> Duration_Corrected_Hours (task_row (example_reference 35) (example_task 40 ''40.0h'')) = 35
   \<and> tag_of (Duration_Source (task_row (example_reference 35) (example_task 40 ''40.0h'')))
       = Some ReferenceAcceptedRawZero
   \<and> Duration_MPXJ_Hours (task_row Map.empty (example_task 3 ''3.0w'')) = 0
   \<and> Duration_Corrected_Hours (task_row Map.empty (example_task 3 ''3.0w'')) = 0
   \<and> Duration_Corrected (task_row Map.empty (example_task 3 ''3.0w'')) = ''3.0w''"
proof -
  have s: "\<not> sublist ''eh'' ''40.0h''" "\<not> sublist ''d'' ''40.0h''"
    "\<not> sublist ''eh'' ''3.0w''" "\<not> sublist ''d'' ''3.0w''"
    by code_simp+
  from other_units_raw_zero [of "example_reference 35" "example_task 40 ''40.0h''"]
    other_units_raw_zero [of Map.empty "example_task 3 ''3.0w''"]
  show ?thesis
    by (simp add: example_row example_task_fields example_reference_def s)
qed




section \<open>Properties of the predecessor notation\<close>

lemma format_loop_map: "format_loop formatted rs = formatted @ map format_relation rs"
  by (induction rs arbitrary: formatted) simp_all

lemma format_predecessors_join:
  "format_predecessors (Some rs) = join ''; '' (map format_relation rs)"
  by (cases rs) (simp_all add: format_predecessors_def format_loop_map)

lemma format_relation_spec:
  assumes "case getPredecessorTask r of Some t \<Rightarrow> getID t \<noteq> None | None \<Rightarrow> True"
  shows "format_relation r = relationToken (spec_of r)"
  using assms
  by (auto simp: format_relation_def relationToken_def spec_of_def lagToken_def str_id_def
      Let_def split: option.splits)

lemmas notation_eval =
  formatRelations_def relationToken_def spec_of_def lagToken_def str_int_def py_int_def
  str_nat.simps digit_def example_relation_def

text \<open>
  C7. The formatter is not the formatter of the specification on every sequence of
  relations. A relation whose predecessor task is present and has no identifier has an
  absent identifier, for which the specification prints \<^verbatim>\<open>Unknown\<close>; the loop tests the
  predecessor task only, not its identifier, and prints \<^verbatim>\<open>None\<close>. The loop over the tasks
  does test \<^verbatim>\<open>task.getID()\<close> before it uses it.
\<close>

theorem null_id_prints_None:
  "getPredecessorTask example_null_id = Some \<lparr>getID = None\<rparr>
   \<and> predecessorTaskId (spec_of example_null_id) = None
   \<and> formatRelations [spec_of example_null_id] = ''UnknownFS''
   \<and> format_predecessors (Some [example_null_id]) = ''NoneFS''
   \<and> format_predecessors (Some [example_null_id]) \<noteq> formatRelations [spec_of example_null_id]"
  by (simp add: example_null_id_def format_predecessors_def format_relation_def str_id_def
      formatRelations_def relationToken_def spec_of_def lagToken_def)

text \<open>
  On relations whose predecessor task, when there is one, carries an identifier, the
  formatter is the formatter of the specification: one token per relation, made of the
  identifier (or \<^verbatim>\<open>Unknown\<close> without a predecessor task), the type (\<^verbatim>\<open>FS\<close> when
  unspecified) and the lag token, joined with \<^verbatim>\<open>; \<close>. The lag token is empty for a
  zero lag (or no lag object) and otherwise a \<^verbatim>\<open>+\<close> for a positive lag, the lag truncated
  to an integer, and the unit. No relations, or no list at all, give the empty text.
\<close>

lemma format_predecessors_with_ids:
  assumes "ids_present rs"
  shows "format_predecessors (Some rs) = formatRelations (map spec_of rs)
    \<and> format_predecessors (Some []) = []
    \<and> format_predecessors None = []"
proof -
  from assms have "map format_relation rs = map (relationToken \<circ> spec_of) rs"
    by (simp add: ids_present_def list_all_iff format_relation_spec)
  then have "format_predecessors (Some rs) = formatRelations (map spec_of rs)"
    by (simp only: format_predecessors_join formatRelations_def map_map)
  then show ?thesis
    by (simp add: format_predecessors_def)
qed

text \<open>
  The examples of the specification: \<^verbatim>\<open>5SS+2d\<close>, \<^verbatim>\<open>5FS\<close> and \<^verbatim>\<open>UnknownFS\<close>, then an
  unspecified type with a negative lag, alone and in one list.
\<close>

lemma format_predecessors_examples:
  "ids_present
     [example_relation True (Some SS) 2, example_relation True (Some FS) 0,
      example_relation False (Some FS) 0, example_relation True None (- 1)]
   \<and> format_predecessors (Some [example_relation True (Some SS) 2]) = ''5SS+2d''
   \<and> format_predecessors (Some [example_relation True (Some FS) 0]) = ''5FS''
   \<and> format_predecessors (Some [example_relation False (Some FS) 0]) = ''UnknownFS''
   \<and> format_predecessors (Some [example_relation True None (- 1)]) = ''5FS-1d''
   \<and> format_predecessors
        (Some [example_relation True (Some SS) 2, example_relation True (Some FS) 0,
               example_relation False (Some FS) 0, example_relation True None (- 1)])
       = ''5SS+2d; 5FS; UnknownFS; 5FS-1d''"
proof -
  have ids: "ids_present [example_relation a ty l]" for a ty l
    by (simp add: ids_present_def example_relation_def)
  have all_ids: "ids_present
     [example_relation True (Some SS) 2, example_relation True (Some FS) 0,
      example_relation False (Some FS) 0, example_relation True None (- 1)]"
    by (simp add: ids_present_def example_relation_def)
  have one: "format_predecessors (Some [example_relation a ty l])
      = formatRelations (map spec_of [example_relation a ty l])" for a ty l
    using format_predecessors_with_ids [OF ids] by (rule conjunct1)
  have four: "format_predecessors
        (Some [example_relation True (Some SS) 2, example_relation True (Some FS) 0,
               example_relation False (Some FS) 0, example_relation True None (- 1)])
       = ''5SS+2d; 5FS; UnknownFS; 5FS-1d''"
    using format_predecessors_with_ids [OF all_ids] by (simp add: notation_eval)
  have singles:
    "format_predecessors (Some [example_relation True (Some SS) 2]) = ''5SS+2d''"
    "format_predecessors (Some [example_relation True (Some FS) 0]) = ''5FS''"
    "format_predecessors (Some [example_relation False (Some FS) 0]) = ''UnknownFS''"
    "format_predecessors (Some [example_relation True None (- 1)]) = ''5FS-1d''"
    by (simp_all only: one) (simp_all add: notation_eval)
  from all_ids singles four show ?thesis
    by blast
qed


section \<open>Properties of the timeline rows\<close>

text \<open>
  C9, as the claim states it, fails: a row with a start date and no finish date is not
  among the rows kept.
\<close>

theorem start_only_row_dropped:
  "Start example_start_only = Some ''2024-01-01 08:00:00''
   \<and> example_start_only \<notin> set (rows_with_dates [example_start_only])"
  by (simp add: rows_with_dates_def example_start_only_def)

text \<open>
  C9, amended. The rows kept are exactly the rows that have both a start date and a
  finish date, in their order; the rows dropped are exactly those lacking a start date or
  a finish date.
\<close>

theorem rows_with_dates_kept:
  "(row \<in> set (rows_with_dates df)
      \<longleftrightarrow> row \<in> set df \<and> Start row \<noteq> None \<and> Finish row \<noteq> None)
   \<and> (row \<in> set df - set (rows_with_dates df)
      \<longleftrightarrow> row \<in> set df \<and> (Start row = None \<or> Finish row = None))
   \<and> subseq (rows_with_dates df) df"
  by (auto simp: rows_with_dates_def)

theorem rows_with_dates_kept_witness:
  "rows_with_dates
     [example_start_only, \<lparr>Start = Some ''2024-01-01'', Finish = Some ''2024-01-05''\<rparr>,
      \<lparr>Start = None, Finish = None\<rparr>]
   = [\<lparr>Start = Some ''2024-01-01'', Finish = Some ''2024-01-05''\<rparr>]
   \<and> subseq
       (rows_with_dates
         [example_start_only, \<lparr>Start = Some ''2024-01-01'', Finish = Some ''2024-01-05''\<rparr>,
          \<lparr>Start = None, Finish = None\<rparr>])
       [example_start_only, \<lparr>Start = Some ''2024-01-01'', Finish = Some ''2024-01-05''\<rparr>,
        \<lparr>Start = None, Finish = None\<rparr>]"
  using rows_with_dates_kept
    [of "\<lparr>Start = None, Finish = None\<rparr>"
      "[example_start_only, \<lparr>Start = Some ''2024-01-01'', Finish = Some ''2024-01-05''\<rparr>,
        \<lparr>Start = None, Finish = None\<rparr>]"]
  by (simp add: rows_with_dates_def example_start_only_def)


section \<open>Properties of the summary sheet\<close>

lemma value_counts_total: "sum_list (map snd (value_counts xs)) = length xs"
proof -
  have "sum_list (map snd (value_counts xs)) = sum_list (map (count_list xs) (remdups xs))"
    by (simp add: value_counts_def comp_def)
  also have "\<dots> = sum (count_list xs) (set xs)"
    by (simp add: sum_list_distinct_conv_sum_set)
  also have "\<dots> = length xs"
    by (rule sum_count_set) auto
  finally show ?thesis .
qed

text \<open>The exact percentages add up to the exact percentage of the sum.\<close>

lemma exact_percentage_sum:
  "sum_list (map (\<lambda>c. (of_nat c :: rat) / of_nat n * 100) cs)
     = of_nat (sum_list cs) / of_nat n * 100"
  by (induction cs) (simp_all add: add_divide_distrib distrib_right)

text \<open>
  The percentage the code computes, with its two roundings, against the exact one: the
  relative error is at most \<open>2\<^sup>-\<^sup>5\<^sup>1\<close>.
\<close>

lemma percentage_near:
  "\<bar>percentage c n - of_nat c / of_nat n * 100\<bar> \<le> of_nat c / of_nat n * 100 / 2 ^ 51"
proof -
  define x :: rat where "x = of_nat c / of_nat n"
  define q where "q = round_double x"
  have x: "0 \<le> x"
    by (simp add: x_def)
  have q: "\<bar>q - x\<bar> \<le> x / 2 ^ 53"
    using round_double_error [of x] x by (simp add: q_def)
  have "x / 2 ^ 53 \<le> x"
    using x by (simp add: field_simps)
  with q have q_bounds: "0 \<le> q" "q \<le> 2 * x"
    by linarith+
  have "\<bar>round_double (q * 100) - q * 100\<bar> \<le> \<bar>q * 100\<bar> / 2 ^ 53"
    by (rule round_double_error)
  also have "\<dots> \<le> 200 * x / 2 ^ 53"
    using q_bounds by (simp add: divide_right_mono)
  finally have p: "\<bar>round_double (q * 100) - q * 100\<bar> \<le> 200 * x / 2 ^ 53" .
  have "q * 100 - x * 100 = 100 * (q - x)"
    by (simp add: algebra_simps)
  then have "\<bar>q * 100 - x * 100\<bar> = 100 * \<bar>q - x\<bar>"
    by (simp only: abs_mult abs_numeral)
  then have "\<bar>round_double (q * 100) - x * 100\<bar>
      \<le> \<bar>round_double (q * 100) - q * 100\<bar> + 100 * \<bar>q - x\<bar>"
    by linarith
  also have "\<dots> \<le> 200 * x / 2 ^ 53 + 100 * (x / 2 ^ 53)"
    using p q by (intro add_mono) simp_all
  also have "\<dots> \<le> x * 100 / 2 ^ 51"
    using x by (simp add: field_simps)
  finally show ?thesis
    by (simp add: percentage_def double_mul_def double_div_def q_def x_def)
qed

lemma sum_list_near:
  assumes "\<And>x. x \<in> set xs \<Longrightarrow> \<bar>f x - g x\<bar> \<le> (h x :: rat)"
  shows "\<bar>sum_list (map f xs) - sum_list (map g xs)\<bar> \<le> sum_list (map h xs)"
  using assms
proof (induction xs)
  case Nil
  then show ?case by simp
next
  case (Cons x xs)
  have "\<bar>sum_list (map f (x # xs)) - sum_list (map g (x # xs))\<bar>
      \<le> \<bar>f x - g x\<bar> + \<bar>sum_list (map f xs) - sum_list (map g xs)\<bar>"
    by simp
  also have "\<dots> \<le> h x + sum_list (map h xs)"
    using Cons by (intro add_mono) simp_all
  finally show ?case
    by simp
qed

lemma percentage_sum_near:
  assumes "sum_list cs = n" and "0 < n"
  shows "\<bar>sum_list (map (\<lambda>c. percentage c n) cs) - 100\<bar> \<le> 100 / 2 ^ 51"
proof -
  have exact: "sum_list (map (\<lambda>c. (of_nat c :: rat) / of_nat n * 100) cs) = 100"
    unfolding exact_percentage_sum using assms by simp
  have "\<bar>sum_list (map (\<lambda>c. percentage c n) cs)
        - sum_list (map (\<lambda>c. (of_nat c :: rat) / of_nat n * 100) cs)\<bar>
      \<le> sum_list (map (\<lambda>c. (of_nat c :: rat) / of_nat n * 100 / 2 ^ 51) cs)"
    by (rule sum_list_near) (rule percentage_near)
  also have "sum_list (map (\<lambda>c. (of_nat c :: rat) / of_nat n * 100 / 2 ^ 51) cs)
      = sum_list (map (\<lambda>c. (of_nat c :: rat) / of_nat n * 100) cs) / 2 ^ 51"
    by (induction cs) (simp_all add: add_divide_distrib)
  finally show ?thesis
    by (simp only: exact)
qed

lemma rounded_sum_near:
  "\<bar>sum_list (map (rounded_to p) xs) - sum_list xs\<bar> \<le> of_nat (length xs) / (2 * 10 ^ p)"
proof (induction xs)
  case Nil
  then show ?case by simp
next
  case (Cons x xs)
  have "\<bar>sum_list (map (rounded_to p) (x # xs)) - sum_list (x # xs)\<bar>
      \<le> \<bar>rounded_to p x - x\<bar> + \<bar>sum_list (map (rounded_to p) xs) - sum_list xs\<bar>"
    by simp
  also have "\<dots> \<le> 1 / (2 * 10 ^ p) + of_nat (length xs) / (2 * 10 ^ p)"
    by (intro add_mono rounded_to_near Cons.IH)
  also have "\<dots> = of_nat (length (x # xs)) / (2 * 10 ^ p)"
    by (simp add: field_simps)
  finally show ?case .
qed

text \<open>
  C8. For a non-empty sheet: the counts of the statistics add up to the number of rows;
  the percentages, each the double \<open>count / total * 100\<close> of the code, add up to 100
  within \<open>100 / 2\<^sup>5\<^sup>1\<close>, and the percentages as printed, rounded to one decimal, add up to
  100 within 0.05 per entry more; the statistics rows of the summary show these counts
  and printed percentages; and the last row shows the total corrected hours over the
  total raw hours, a quotient of doubles within \<open>2\<^sup>-\<^sup>5\<^sup>3\<close> of the exact ratio, with one
  decimal and an \<^verbatim>\<open>x\<close>, when the total raw hours are positive, and \<^verbatim>\<open>N/A\<close> otherwise, so
  when they are zero. The totals are the sums of the two columns, whatever the order in
  which the library adds them.
\<close>

theorem summary_totals:
  assumes "tasks_df \<noteq> []"
  shows "sum_list (map snd (correction_stats tasks_df)) = length tasks_df
    \<and> \<bar>sum_list (map (\<lambda>(source, count). percentage count (length tasks_df))
          (correction_stats tasks_df)) - 100\<bar> \<le> 100 / 2 ^ 51
    \<and> \<bar>sum_list (map (\<lambda>(source, count). rounded_to 1 (percentage count (length tasks_df)))
          (correction_stats tasks_df)) - 100\<bar>
        \<le> of_nat (length (correction_stats tasks_df)) / 20 + 100 / 2 ^ 51
    \<and> take (length (correction_stats tasks_df)) (summary_data series_sum tasks_df)
        = map (\<lambda>(source, count).
                 \<lparr>Metric = ''Tasks from '' @ source, Count = Num count,
                  Percentage = format_f 1 (percentage count (length tasks_df)) @ ''%''\<rparr>)
            (correction_stats tasks_df)
    \<and> last (summary_data series_sum tasks_df)
        = \<lparr>Metric = ''Correction factor'',
           Count = Text (if 0 < total_original_hours series_sum tasks_df
                         then format_f 1 (double_div (total_corrected_hours series_sum tasks_df)
                                            (total_original_hours series_sum tasks_df)) @ ''x''
                         else ''N/A''),
           Percentage = []\<rparr>
    \<and> \<bar>double_div (total_corrected_hours series_sum tasks_df)
          (total_original_hours series_sum tasks_df)
        - total_corrected_hours series_sum tasks_df / total_original_hours series_sum tasks_df\<bar>
        \<le> \<bar>total_corrected_hours series_sum tasks_df
            / total_original_hours series_sum tasks_df\<bar> / 2 ^ 53"
proof -
  let ?n = "length tasks_df"
  let ?cs = "map snd (correction_stats tasks_df)"
  let ?ps = "map (\<lambda>c. percentage c ?n) ?cs"
  have n: "0 < ?n"
    using assms by simp
  have total: "sum_list ?cs = ?n"
    by (simp add: correction_stats_def value_counts_total)
  have split: "map (\<lambda>(source, count). f count) (correction_stats tasks_df) = map f ?cs"
    for f :: "nat \<Rightarrow> rat"
    by (simp add: case_prod_unfold comp_def)
  have sum: "\<bar>sum_list ?ps - 100\<bar> \<le> 100 / 2 ^ 51"
    using total n by (rule percentage_sum_near)
  have "\<bar>sum_list (map (rounded_to 1) ?ps) - sum_list ?ps\<bar> \<le> of_nat (length ?ps) / (2 * 10 ^ 1)"
    by (rule rounded_sum_near)
  then have "\<bar>sum_list (map (rounded_to 1) ?ps) - sum_list ?ps\<bar>
      \<le> of_nat (length (correction_stats tasks_df)) / 20"
    by simp
  with sum have "\<bar>sum_list (map (rounded_to 1) ?ps) - 100\<bar>
      \<le> of_nat (length (correction_stats tasks_df)) / 20 + 100 / 2 ^ 51"
    by linarith
  then have near: "\<bar>sum_list (map (\<lambda>c. rounded_to 1 (percentage c ?n)) ?cs) - 100\<bar>
      \<le> of_nat (length (correction_stats tasks_df)) / 20 + 100 / 2 ^ 51"
    by (simp only: map_map comp_def)
  have rows: "take (length (correction_stats tasks_df)) (summary_data series_sum tasks_df)
      = map (stats_row ?n) (correction_stats tasks_df)"
    by (simp add: summary_data_def)
  have final: "last (summary_data series_sum tasks_df) = last (general_rows series_sum tasks_df)"
    by (simp add: summary_data_def general_rows_def)
  have err: "\<bar>double_div (total_corrected_hours series_sum tasks_df)
          (total_original_hours series_sum tasks_df)
        - total_corrected_hours series_sum tasks_df / total_original_hours series_sum tasks_df\<bar>
        \<le> \<bar>total_corrected_hours series_sum tasks_df
            / total_original_hours series_sum tasks_df\<bar> / 2 ^ 53"
    unfolding double_div_def by (rule round_double_error)
  have a: "\<bar>sum_list (map (\<lambda>(source, count). percentage count ?n) (correction_stats tasks_df))
      - 100\<bar> \<le> 100 / 2 ^ 51"
    using sum by (simp only: split)
  have b: "\<bar>sum_list (map (\<lambda>(source, count). rounded_to 1 (percentage count ?n))
          (correction_stats tasks_df)) - 100\<bar>
        \<le> of_nat (length (correction_stats tasks_df)) / 20 + 100 / 2 ^ 51"
    using near by (simp only: split)
  have c: "take (length (correction_stats tasks_df)) (summary_data series_sum tasks_df)
        = map (\<lambda>(source, count).
                 \<lparr>Metric = ''Tasks from '' @ source, Count = Num count,
                  Percentage = format_f 1 (percentage count (length tasks_df)) @ ''%''\<rparr>)
            (correction_stats tasks_df)"
    by (simp add: rows stats_row_def)
  have d: "last (summary_data series_sum tasks_df)
        = \<lparr>Metric = ''Correction factor'',
           Count = Text (if 0 < total_original_hours series_sum tasks_df
                         then format_f 1 (double_div (total_corrected_hours series_sum tasks_df)
                                            (total_original_hours series_sum tasks_df)) @ ''x''
                         else ''N/A''),
           Percentage = []\<rparr>"
    by (simp add: final general_rows_def)
  from total a b c d err show ?thesis
    by blast
qed

text \<open>Evaluation of the example rows, and of the percentage of 23 rows out of 80.\<close>

lemma example_rows_fields:
  "map Duration_Source example_rows = [''Nativo (factor 3.5x)'', ''MPXJ'', ''MPXJ'']"
  "map Duration_MPXJ_Hours example_rows = [20, 120, 120]"
  "map Duration_Corrected_Hours example_rows = [69, 120, 120]"
  "length example_rows = 3"
proof -
  have s: "sublist ''eh'' ''20.0eh''" "\<not> sublist ''eh'' ''5.0d''" "sublist ''d'' ''5.0d''"
    by code_simp+
  have q: "double_div 69 20 = 3884354678607053 / 1125899906842624"
    by (simp add: double_eval)
  have fmt: "format_f 1 (3884354678607053 / 1125899906842624) = ''3.5''"
    by (simp add: format_eval floor_numeral_div)
  have first: "correct (example_reference 69) 1
      (Some \<lparr>getDuration = 20, getUnits = None, toString = ''20.0eh''\<rparr>)
      = \<lparr>corrected_hours = 69, corrected_duration_str = format_f 1 69 @ ''h'',
         duration_source = ''Nativo (factor 3.5x)'',
         factor = Some (double_div 69 20)\<rparr>"
    by (subst correct_other [of "example_reference 69" 1 "\<lparr>native_hours = 69, native_name = ''Task''\<rparr>"])
      (simp_all add: example_reference_def mpxj_hours_def mpxj_duration_str_def s q fmt
        band_bounds del: One_nat_def)
  have other: "correct (example_reference 69) 2
      (Some \<lparr>getDuration = 5, getUnits = None, toString = ''5.0d''\<rparr>)
      = \<lparr>corrected_hours = 120, corrected_duration_str = ''5.0d'',
         duration_source = ''MPXJ'', factor = None\<rparr>"
    by (simp add: correct_def example_reference_def mpxj_hours_def mpxj_duration_str_def s Let_def)
  have rows: "example_rows =
      [task_row (example_reference 69) (example_task 20 ''20.0eh''),
       task_row (example_reference 69) ((example_task 5 ''5.0d'')\<lparr>getID := Some 2\<rparr>),
       task_row (example_reference 69) ((example_task 5 ''5.0d'')\<lparr>getID := Some 2\<rparr>)]"
    by (simp add: example_rows_def)
  have fields: "task_getDuration ((example_task v t)\<lparr>getID := Some 2\<rparr>)
      = Some \<lparr>getDuration = v, getUnits = None, toString = t\<rparr>"
    "task_id_of ((example_task v t)\<lparr>getID := Some 2\<rparr>) = 2" for v t
    by (simp_all add: example_task_def task_id_of_def)
  have m: "mpxj_hours (Some \<lparr>getDuration = 20, getUnits = None, toString = ''20.0eh''\<rparr>) = 20"
    "mpxj_hours (Some \<lparr>getDuration = 5, getUnits = None, toString = ''5.0d''\<rparr>) = 120"
    by (simp_all add: mpxj_hours_def mpxj_duration_str_def s)
  show "map Duration_Source example_rows = [''Nativo (factor 3.5x)'', ''MPXJ'', ''MPXJ'']"
    "map Duration_MPXJ_Hours example_rows = [20, 120, 120]"
    "map Duration_Corrected_Hours example_rows = [69, 120, 120]"
    "length example_rows = 3"
    unfolding rows
    by (simp_all add: row_fields example_task_fields fields first other m)
qed

lemma stats_row_example:
  "stats_row 80 (''MPXJ'', 23)
     = \<lparr>Metric = ''Tasks from MPXJ'', Count = Num 23, Percentage = ''28.7%''\<rparr>"
proof -
  have "format_f 1 (percentage 23 80) = ''28.7''"
    by (simp add: percentage_def double_eval format_f_def str_nat.simps digit_def zero_pad_def)
  then show ?thesis
    by (simp add: stats_row_def)
qed

text \<open>
  The three example rows, the columns added from left to right: one task from the
  reference with the factor shown and two from the plain source, 260 raw hours and 309
  corrected hours.
\<close>

theorem summary_totals_witness:
  "example_rows \<noteq> []
   \<and> correction_stats example_rows = [(''Nativo (factor 3.5x)'', 1), (''MPXJ'', 2)]
   \<and> sum_list (map snd (correction_stats example_rows)) = length example_rows
   \<and> take 2 (summary_data sum_list example_rows)
       = [\<lparr>Metric = ''Tasks from Nativo (factor 3.5x)'', Count = Num 1, Percentage = ''33.3%''\<rparr>,
          \<lparr>Metric = ''Tasks from MPXJ'', Count = Num 2, Percentage = ''66.7%''\<rparr>]
   \<and> last (summary_data sum_list example_rows)
       = \<lparr>Metric = ''Correction factor'', Count = Text ''1.2x'', Percentage = []\<rparr>
   \<and> last (summary_data sum_list [hd example_rows])
       = \<lparr>Metric = ''Correction factor'', Count = Text ''3.5x'', Percentage = []\<rparr>"
proof -
  have ne: "example_rows \<noteq> []"
    using example_rows_fields(4) by auto
  have stats: "correction_stats example_rows = [(''Nativo (factor 3.5x)'', 1), (''MPXJ'', 2)]"
    by (simp add: correction_stats_def value_counts_def example_rows_fields)
  have totals: "total_original_hours sum_list example_rows = 260"
    "total_corrected_hours sum_list example_rows = 309"
    by (simp_all add: total_original_hours_def total_corrected_hours_def example_rows_fields)
  have hd_fields: "Duration_MPXJ_Hours (hd example_rows) = 20"
    "Duration_Corrected_Hours (hd example_rows) = 69"
    using example_rows_fields(2,3) ne by (simp_all add: hd_map [symmetric])
  have hd_totals: "total_original_hours sum_list [hd example_rows] = 20"
    "total_corrected_hours sum_list [hd example_rows] = 69"
    by (simp_all add: total_original_hours_def total_corrected_hours_def hd_fields)
  have fmt: "format_f 1 (percentage 1 3) = ''33.3''" "format_f 1 (percentage 2 3) = ''66.7''"
    "format_f 1 (double_div 309 260) = ''1.2''" "format_f 1 (double_div 69 20) = ''3.5''"
    by (simp_all add: percentage_def double_eval format_f_def str_nat.simps digit_def
        zero_pad_def)
  have l2: "length [(''Nativo (factor 3.5x)'', 1::nat), (''MPXJ'', 2)] = 2"
    by simp
  note t = summary_totals [OF ne, of sum_list]
  from t have a: "sum_list (map snd (correction_stats example_rows)) = length example_rows"
    by (rule conjunct1)
  from t have "take (length (correction_stats example_rows)) (summary_data sum_list example_rows)
      = map (\<lambda>(source, count).
                 \<lparr>Metric = ''Tasks from '' @ source, Count = Num count,
                  Percentage = format_f 1 (percentage count (length example_rows)) @ ''%''\<rparr>)
            (correction_stats example_rows)"
    by blast
  then have b: "take 2 (summary_data sum_list example_rows)
       = [\<lparr>Metric = ''Tasks from Nativo (factor 3.5x)'', Count = Num 1, Percentage = ''33.3%''\<rparr>,
          \<lparr>Metric = ''Tasks from MPXJ'', Count = Num 2, Percentage = ''66.7%''\<rparr>]"
    by (simp only: stats l2 example_rows_fields(4) list.map prod.case fmt append_Cons append_Nil)
  from t have "last (summary_data sum_list example_rows)
        = \<lparr>Metric = ''Correction factor'',
           Count = Text (if 0 < total_original_hours sum_list example_rows
                         then format_f 1 (double_div (total_corrected_hours sum_list example_rows)
                                            (total_original_hours sum_list example_rows)) @ ''x''
                         else ''N/A''),
           Percentage = []\<rparr>"
    by blast
  then have c: "last (summary_data sum_list example_rows)
       = \<lparr>Metric = ''Correction factor'', Count = Text ''1.2x'', Percentage = []\<rparr>"
    by (simp only: totals fmt) simp
  have "[hd example_rows] \<noteq> []"
    by simp
  from summary_totals [OF this, of sum_list]
  have "last (summary_data sum_list [hd example_rows])
        = \<lparr>Metric = ''Correction factor'',
           Count = Text (if 0 < total_original_hours sum_list [hd example_rows]
                         then format_f 1 (double_div (total_corrected_hours sum_list [hd example_rows])
                                            (total_original_hours sum_list [hd example_rows])) @ ''x''
                         else ''N/A''),
           Percentage = []\<rparr>"
    by blast
  then have d: "last (summary_data sum_list [hd example_rows])
       = \<lparr>Metric = ''Correction factor'', Count = Text ''3.5x'', Percentage = []\<rparr>"
    by (simp only: hd_totals fmt) simp
  from ne stats a b c d show ?thesis
    by blast
qed

end
